theory Spec2Isabelle
  imports Main "HOL-Library.Sublist"
begin

section \<open>Python values and strings\<close>

text \<open>
  A Python \<open>str\<close> is modelled as a \<open>string\<close> (a list of characters). The argument of
  \<open>sanitize_input\<close> is dynamically typed, so it is a value of \<open>py_value\<close>: a string,
  \<open>None\<close>, a Boolean, an integer, or an object of any other type, of which the function
  reads the truth value only.
\<close>

datatype py_value = PyNone | PyBool bool | PyInt int | PyStr string | PyObject bool

fun truthy :: "py_value \<Rightarrow> bool" where
  "truthy PyNone = False"
| "truthy (PyBool b) = b"
| "truthy (PyInt i) = (i \<noteq> 0)"
| "truthy (PyStr s) = (s \<noteq> [])"
| "truthy (PyObject b) = b"

fun isinstance_str :: "py_value \<Rightarrow> bool" where
  "isinstance_str (PyStr s) = True"
| "isinstance_str v = False"

text \<open>
  \<open>str.lower\<close> and \<open>str.upper\<close>. The source applies them to the entries of the denylist
  only, which are ASCII, so the ASCII letters are the ones mapped.
\<close>

definition lower_char :: "char \<Rightarrow> char" where
  "lower_char c = (let n = (of_char c :: nat) in if 65 \<le> n \<and> n \<le> 90 then char_of (n + 32) else c)"

definition upper_char :: "char \<Rightarrow> char" where
  "upper_char c = (let n = (of_char c :: nat) in if 97 \<le> n \<and> n \<le> 122 then char_of (n - 32) else c)"

definition lower :: "string \<Rightarrow> string" where
  "lower s = map lower_char s"

definition upper :: "string \<Rightarrow> string" where
  "upper s = map upper_char s"

text \<open>
  \<open>s.replace(old, new)\<close>: scanning from the left, every occurrence of \<open>old\<close> that does not
  overlap an earlier one is replaced by \<open>new\<close>. With an empty \<open>old\<close>, Python puts \<open>new\<close>
  before every character and at the end.
\<close>

function str_replace :: "string \<Rightarrow> string \<Rightarrow> string \<Rightarrow> string" where
  "str_replace old new s =
     (if old = [] then new @ concat (map (\<lambda>c. c # new) s)
      else if s = [] then []
      else if prefix old s then new @ str_replace old new (drop (length old) s)
      else hd s # str_replace old new (tl s))"
  by pat_completeness auto
termination
  by (relation "measure (\<lambda>(old, new, s). length s)") auto

declare str_replace.simps [simp del]

section \<open>Input sanitizer\<close>

definition dangerous_patterns :: "string list" where
  "dangerous_patterns =
     [''<script>'', ''javascript:'', ''onerror='', ''onclick='',
      ''DROP TABLE'', ''DELETE FROM'', ''INSERT INTO'', ''SELECT *'',
      ''<iframe>'', ''eval('', ''document.cookie'']"

text \<open>The body of the loop over the denylist: three \<open>replace\<close> calls for one pattern.\<close>

definition strip_pattern :: "string \<Rightarrow> string \<Rightarrow> string" where
  "strip_pattern pattern sanitized =
     str_replace (upper pattern) []
       (str_replace (lower pattern) []
         (str_replace pattern [] sanitized))"

definition sanitize_input :: "py_value \<Rightarrow> string" where
  "sanitize_input user_input =
     (if \<not> truthy user_input \<or> \<not> isinstance_str user_input then []
      else case user_input of
             PyStr s \<Rightarrow> take 500 (fold strip_pattern dangerous_patterns s)
           | _ \<Rightarrow> [])"

text \<open>\<open>pattern in s\<close> for Python strings: \<open>pattern\<close> occurs as a contiguous substring.\<close>

definition contains :: "string \<Rightarrow> string \<Rightarrow> bool" where
  "contains s pattern = sublist pattern s"

section \<open>Rate limiter\<close>

text \<open>
  A \<open>datetime\<close> is an integer number of microseconds; \<open>timedelta(hours=1)\<close> is \<open>hour\<close>.
  The session entry \<open>query_times\<close> is \<open>None\<close> while the key is not in the session state.
  \<open>check_rate_limit\<close> reads the clock once; the reading is the first argument. It returns
  its result together with the new session entry.
\<close>

definition hour :: int where
  "hour = 3600 * 1000000"

definition check_rate_limit :: "int \<Rightarrow> int list option \<Rightarrow> bool \<times> int list option" where
  "check_rate_limit current_time query_times =
     (let qt0 = (case query_times of None \<Rightarrow> [] | Some ts \<Rightarrow> ts);
          qt1 = filter (\<lambda>t. current_time - t < hour) qt0
      in if length qt1 \<ge> 20 then (False, Some qt1)
         else (True, Some (qt1 @ [current_time])))"

text \<open>
  The session states of the rate limiter that a session can be in: \<open>check_rate_limit\<close> is
  the only writer of \<open>query_times\<close>, so they are the states reached from a fresh session
  (key absent) by a sequence of attempts, one per clock reading.
\<close>

fun attempts :: "int list \<Rightarrow> int list option \<Rightarrow> int list option" where
  "attempts [] query_times = query_times"
| "attempts (t # ts) query_times = attempts ts (snd (check_rate_limit t query_times))"

section \<open>Effects\<close>

text \<open>
  What the program does beyond computing values is recorded as a list of events, in the
  order of the calls: messages shown to the user, lines written to the audit log (the
  formatted numbers are kept as numbers) and calls of the upstream model.
\<close>

datatype pyexn = StopException | PyException string | PyBaseException string

text \<open>
  \<open>StopException\<close> is what \<open>st.stop()\<close> raises; like \<open>PyBaseException\<close> (for example
  \<open>KeyboardInterrupt\<close>) it is not an instance of \<open>Exception\<close>, so \<open>except Exception\<close>
  does not catch it.
\<close>

fun isinstance_Exception :: "pyexn \<Rightarrow> bool" where
  "isinstance_Exception (PyException name) = True"
| "isinstance_Exception e = False"

record chat_message =
  role :: string
  content :: string

record api_request =
  model :: string
  max_tokens :: nat
  system :: string
  request_messages :: "chat_message list"

datatype client = Anthropic string

text \<open>
  A content block of the answer: one with a \<open>text\<close> attribute, or one without, for which
  reading \<open>.text\<close> raises an \<open>AttributeError\<close> with the given message.
\<close>

datatype content_block = TextBlock string | OtherBlock string

datatype api_result = Raises pyexn | Returns "content_block list"

datatype ui_message = Api_key_not_configured | Invalid_input | Rate_limit_reached

datatype event =
    St_error ui_message
  | St_warning ui_message
  | Logging_error_api_key_missing
  | Logging_error_api_error string
  | Logging_warning_invalid_input nat
  | Logging_warning_rate_limit
  | Logging_info_query string nat nat
  | Messages_create client api_request

fun is_upstream_call :: "event \<Rightarrow> bool" where
  "is_upstream_call (Messages_create c r) = True"
| "is_upstream_call e = False"

definition log_query :: "nat \<Rightarrow> nat \<Rightarrow> bool \<Rightarrow> event list" where
  "log_query query_length response_length success =
     (let status = (if success then ''SUCCESS'' else ''FAILED'')
      in [Logging_info_query status query_length response_length])"

section \<open>Query dispatcher\<close>

text \<open>
  \<open>os.environ\<close> is a map from names to values. A function that can raise returns a sum,
  \<open>Inl\<close> the exception, together with the events up to that point. The library calls
  are parameters, each with its way of raising:
  \<^item> \<open>anthropic_init\<close> is the constructor call \<open>Anthropic(api_key=api_key)\<close>: \<open>None\<close> when it
    returns the client, \<open>Some e\<close> when it raises \<open>e\<close>;
  \<^item> \<open>json_dumps_records\<close> is \<open>json.dumps(student_data.to_dict('records'), indent=2)\<close> on
    the loaded table: the text, or the exception that \<open>to_dict\<close> or \<open>json.dumps\<close> raises;
  \<^item> \<open>messages_create\<close> is \<open>client.messages.create\<close>: the content blocks of the message,
    or the exception raised;
  \<^item> \<open>exn_str\<close> is \<open>str(e)\<close> on an exception raised by the upstream call: the message, or
    the exception that its \<open>__str__\<close> raises.
\<close>

definition get_claude_client ::
  "(string \<rightharpoonup> string) \<Rightarrow> (string \<Rightarrow> pyexn option) \<Rightarrow> (pyexn + client) \<times> event list" where
  "get_claude_client environ anthropic_init =
     (let api_key = environ ''ANTHROPIC_API_KEY''
      in if api_key = None \<or> api_key = Some []
         then (Inl StopException, [St_error Api_key_not_configured, Logging_error_api_key_missing])
         else case anthropic_init (the api_key) of
                Some e \<Rightarrow> (Inl e, [])
              | None \<Rightarrow> (Inr (Anthropic (the api_key)), []))"

definition SYSTEM_PROMPT :: string where
  "SYSTEM_PROMPT =
     ''You are \"Hoos Who?\" - a helpful assistant for UVA Darden MSBA students looking to connect with classmates based on career backgrounds.\<newline>'' @
     ''\<newline>'' @
     ''You have access to a database of MSBA student profiles with their:\<newline>'' @
     ''- Current company and role\<newline>'' @
     ''- Past work experience\<newline>'' @
     ''- Industries they've worked in\<newline>'' @
     ''- Contact information\<newline>'' @
     ''- Brief bios\<newline>'' @
     ''\<newline>'' @
     ''When a user asks a question, search through the student data and provide helpful matches. Be friendly, concise, and always include:\<newline>'' @
     ''1. Student name(s) that match their query\<newline>'' @
     ''2. Why they're a good match\<newline>'' @
     ''3. Their current role and company\<newline>'' @
     ''4. Relevant past experience\<newline>'' @
     ''5. How to contact them\<newline>'' @
     ''\<newline>'' @
     ''If multiple students match, list the top 2-3 most relevant ones. Always maintain a friendly, collegial tone - these are classmates helping classmates!\<newline>'' @
     ''\<newline>'' @
     ''Format your responses in a clear, scannable way. Use phrases like \"Great question!\" or \"Here's who I'd recommend reaching out to:\" to keep it conversational.''"

definition fallback_message :: string where
  "fallback_message =
     ''I'm having trouble processing your request right now. Please try again in a moment. If this continues, please contact support.''"

text \<open>The f-string of \<open>query_claude\<close>, with its two holes.\<close>

definition user_prompt_of :: "string \<Rightarrow> string \<Rightarrow> string" where
  "user_prompt_of context user_question =
     ''Here's our current MSBA student database:\<newline>\<newline>'' @ context @
     ''\<newline>\<newline>User question: '' @ user_question @
     ''\<newline>\<newline>Please search through the students and provide helpful recommendations for who they should connect with based on their question.''"

text \<open>
  The \<open>except Exception\<close> branch of \<open>query_claude\<close>, given what \<open>str(e)\<close> evaluates to:
  the f-string is evaluated first, so when \<open>str(e)\<close> raises nothing is logged and the new
  exception leaves the branch.
\<close>

definition api_error_branch :: "string \<Rightarrow> pyexn + string \<Rightarrow> (pyexn + string) \<times> event list" where
  "api_error_branch user_question str_e =
     (case str_e of
        Inl e2 \<Rightarrow> (Inl e2, [])
      | Inr message \<Rightarrow>
          (Inr fallback_message,
           [Logging_error_api_error message] @ log_query (length user_question) 0 False))"

text \<open>The keyword arguments of \<open>client.messages.create\<close>.\<close>

definition messages_create_args :: "string \<Rightarrow> api_request" where
  "messages_create_args user_prompt =
     \<lparr>model = ''claude-sonnet-4-20250514'', max_tokens = 1000, system = SYSTEM_PROMPT,
      request_messages = [\<lparr>role = ''user'', content = user_prompt\<rparr>]\<rparr>"

text \<open>
  \<open>query_claude\<close>. The client is built and the table serialized before the \<open>try\<close>, so an
  exception there leaves the function. The first content block is read inside the
  \<open>try\<close>: an empty list raises \<open>IndexError\<close> and a block without \<open>text\<close> raises
  \<open>AttributeError\<close> there, both built-in exceptions whose \<open>str\<close> returns.
\<close>

definition query_claude ::
  "(string \<rightharpoonup> string) \<Rightarrow> (string \<Rightarrow> pyexn option) \<Rightarrow> (client \<Rightarrow> api_request \<Rightarrow> api_result) \<Rightarrow>
   ('d \<Rightarrow> pyexn + string) \<Rightarrow> (pyexn \<Rightarrow> pyexn + string) \<Rightarrow>
   string \<Rightarrow> 'd \<Rightarrow> (pyexn + string) \<times> event list" where
  "query_claude environ anthropic_init messages_create json_dumps_records exn_str
       user_question student_data =
     (case get_claude_client environ anthropic_init of
        (Inl e, evs) \<Rightarrow> (Inl e, evs)
      | (Inr cl, evs) \<Rightarrow>
          (case json_dumps_records student_data of
             Inl e \<Rightarrow> (Inl e, evs)
           | Inr context \<Rightarrow>
              (let user_prompt = user_prompt_of context user_question;
                   request = messages_create_args user_prompt;
                   evs1 = evs @ [Messages_create cl request];
                   caught = (\<lambda>str_e. case api_error_branch user_question str_e of
                                       (r, evs2) \<Rightarrow> (r, evs1 @ evs2))
               in case messages_create cl request of
                    Raises e \<Rightarrow> if isinstance_Exception e then caught (exn_str e) else (Inl e, evs1)
                  | Returns [] \<Rightarrow> caught (Inr ''list index out of range'')
                  | Returns (OtherBlock message # rest) \<Rightarrow> caught (Inr message)
                  | Returns (TextBlock response # rest) \<Rightarrow>
                      (Inr response,
                       evs1 @ log_query (length user_question) (length response) True))))"

section \<open>The chat input handler\<close>

record session_state =
  messages :: "chat_message list"
  query_times :: "int list option"
  shown_welcome :: bool

text \<open>How a run of the script leaves the handler.\<close>

datatype outcome = Continued | Stopped | Rerun | Uncaught pyexn

text \<open>
  The block under \<open>user_input = st.chat_input(...)\<close>: \<open>st.chat_input\<close> gives \<open>None\<close> or the
  submitted string, \<open>current_time\<close> is the clock reading of \<open>check_rate_limit\<close>, and
  \<open>student_data\<close> is what \<open>load_student_data\<close> returns.
\<close>

definition handle_user_input ::
  "(string \<rightharpoonup> string) \<Rightarrow> (string \<Rightarrow> pyexn option) \<Rightarrow> (client \<Rightarrow> api_request \<Rightarrow> api_result) \<Rightarrow>
   ('d \<Rightarrow> pyexn + string) \<Rightarrow> (pyexn \<Rightarrow> pyexn + string) \<Rightarrow>
   'd \<Rightarrow> int \<Rightarrow> string option \<Rightarrow> session_state \<Rightarrow> outcome \<times> session_state \<times> event list" where
  "handle_user_input environ anthropic_init messages_create json_dumps_records exn_str
       student_data current_time user_input st =
     (case user_input of
        None \<Rightarrow> (Continued, st, [])
      | Some raw \<Rightarrow>
          if raw = [] then (Continued, st, [])
          else
            let sanitized_input = sanitize_input (PyStr raw)
            in if sanitized_input = [] \<or> length sanitized_input < 3
               then (Stopped, st, [St_error Invalid_input, Logging_warning_invalid_input (length raw)])
               else
                 case check_rate_limit current_time (query_times st) of
                   (False, qt) \<Rightarrow>
                     (Stopped, st\<lparr>query_times := qt\<rparr>,
                      [St_warning Rate_limit_reached, Logging_warning_rate_limit])
                 | (True, qt) \<Rightarrow>
                     let st1 = st\<lparr>query_times := qt, shown_welcome := True\<rparr>;
                         st2 = st1\<lparr>messages := messages st1 @ [\<lparr>role = ''user'', content = sanitized_input\<rparr>]\<rparr>
                     in case query_claude environ anthropic_init messages_create json_dumps_records
                               exn_str sanitized_input student_data of
                          (Inl e, evs) \<Rightarrow>
                            ((if e = StopException then Stopped else Uncaught e), st2, evs)
                        | (Inr response, evs) \<Rightarrow>
                            (Rerun,
                             st2\<lparr>messages := messages st2 @ [\<lparr>role = ''assistant'', content = response\<rparr>]\<rparr>,
                             evs))"

text \<open>The Python value that \<open>st.chat_input\<close> returns.\<close>

definition chat_input_value :: "string option \<Rightarrow> py_value" where
  "chat_input_value user_input = (case user_input of None \<Rightarrow> PyNone | Some raw \<Rightarrow> PyStr raw)"

section \<open>Auxiliary notions\<close>

text \<open>The bound that the rate limiter maintains on its session entry.\<close>

definition within_limit :: "int list option \<Rightarrow> bool" where
  "within_limit q = (case q of None \<Rightarrow> True | Some qs \<Rightarrow> length qs \<le> 20)"

text \<open>The events of a run that are upstream calls.\<close>

definition upstream_calls :: "event list \<Rightarrow> event list" where
  "upstream_calls evs = filter is_upstream_call evs"

subsection \<open>Example deployments\<close>

text \<open>
  Concrete arguments for the examples below: an environment without the credential and
  one with it, a fresh session, a constructor that returns the client, an upstream that
  answers with one text block and one that raises, a \<open>str\<close> that returns the name carried
  by the exception, and a table of one record with the text \<open>json.dumps\<close> gives for it.
\<close>

definition environ_without_key :: "string \<rightharpoonup> string" where
  "environ_without_key = Map.empty"

definition environ_with_key :: "string \<rightharpoonup> string" where
  "environ_with_key = [''ANTHROPIC_API_KEY'' \<mapsto> ''sk-test'']"

definition fresh_session :: session_state where
  "fresh_session = \<lparr>messages = [], query_times = None, shown_welcome = False\<rparr>"

definition client_constructed :: "string \<Rightarrow> pyexn option" where
  "client_constructed api_key = None"

definition upstream_returning :: "string \<Rightarrow> client \<Rightarrow> api_request \<Rightarrow> api_result" where
  "upstream_returning text cl request = Returns [TextBlock text]"

definition upstream_raising :: "pyexn \<Rightarrow> client \<Rightarrow> api_request \<Rightarrow> api_result" where
  "upstream_raising e cl request = Raises e"

definition str_of_name :: "pyexn \<Rightarrow> pyexn + string" where
  "str_of_name e =
     Inr (case e of StopException \<Rightarrow> [] | PyException name \<Rightarrow> name | PyBaseException name \<Rightarrow> name)"

definition icf_records :: "(string \<times> string) list list" where
  "icf_records = [[(''name'', ''Ann''), (''current_company'', ''ICF'')]]"

definition icf_json :: string where
  "icf_json = ''[\<newline>  {\<newline>    \"name\": \"Ann\",\<newline>    \"current_company\": \"ICF\"\<newline>  }\<newline>]''"

definition icf_dumps :: "(string \<times> string) list list \<Rightarrow> pyexn + string" where
  "icf_dumps records = Inr icf_json"

section \<open>Rate limiter: properties\<close>

lemma check_rate_limit_Some: "\<exists>qs. snd (check_rate_limit t q) = Some qs"
  by (simp add: check_rate_limit_def Let_def)

lemma check_rate_limit_within_limit:
  "within_limit q \<Longrightarrow> within_limit (snd (check_rate_limit t q))"
proof -
  assume a: "within_limit q"
  let ?qs = "case q of None \<Rightarrow> [] | Some ts \<Rightarrow> ts"
  have "length (filter (\<lambda>u. t - u < hour) ?qs) \<le> length ?qs"
    by (rule length_filter_le)
  moreover have "length ?qs \<le> 20"
    using a by (simp add: within_limit_def split: option.splits)
  ultimately have "length (filter (\<lambda>u. t - u < hour) ?qs) \<le> 20"
    by linarith
  then show ?thesis
    by (auto simp: check_rate_limit_def Let_def within_limit_def)
qed

lemma attempts_within_limit: "within_limit q \<Longrightarrow> within_limit (attempts ts q)"
  by (induction ts arbitrary: q) (simp_all add: check_rate_limit_within_limit)

lemma attempts_fresh_within_limit: "within_limit (attempts ts None)"
  by (rule attempts_within_limit) (simp add: within_limit_def)

lemma filter_full_length: "length (filter P xs) = length xs \<Longrightarrow> filter P xs = xs"
  by (metis filter_True length_filter_less less_irrefl)

lemma rejected_unchanged:
  assumes "within_limit q" and "\<not> fst (check_rate_limit t q)"
  shows "snd (check_rate_limit t q) = q"
proof (cases q)
  case None
  with assms(2) show ?thesis by (simp add: check_rate_limit_def)
next
  case (Some qs)
  let ?kept = "filter (\<lambda>u. t - u < hour) qs"
  from assms(2) Some have full: "20 \<le> length ?kept"
    by (simp add: check_rate_limit_def Let_def split: if_splits)
  from assms(1) Some have "length qs \<le> 20" by (simp add: within_limit_def)
  moreover have "length ?kept \<le> length qs" by (rule length_filter_le)
  ultimately have "length ?kept = length qs" using full by linarith
  then have "?kept = qs" by (rule filter_full_length)
  with Some full show ?thesis by (simp add: check_rate_limit_def Let_def)
qed

text \<open>
  Claim C5. In every session state that the rate limiter can be in (reached from a fresh
  session by any sequence of attempts), an attempt first prunes the entries that are one
  hour old or older; it is accepted, and the clock reading appended to the pruned list,
  exactly when fewer than 20 entries remain; when it is rejected the session entry is
  left as it was.
\<close>

theorem rate_limit_prune_accept_or_keep:
  "check_rate_limit now (attempts ts None) =
     (let kept = filter (\<lambda>t. now - t < hour)
                   (case attempts ts None of None \<Rightarrow> [] | Some qs \<Rightarrow> qs)
      in if length kept < 20 then (True, Some (kept @ [now]))
         else (False, attempts ts None))"
proof -
  let ?q = "attempts ts None"
  let ?kept = "filter (\<lambda>t. now - t < hour) (case ?q of None \<Rightarrow> [] | Some qs \<Rightarrow> qs)"
  show ?thesis
  proof (cases "length ?kept < 20")
    case True
    then show ?thesis by (simp add: check_rate_limit_def Let_def)
  next
    case False
    then have rej: "\<not> fst (check_rate_limit now ?q)"
      by (simp add: check_rate_limit_def Let_def)
    have "snd (check_rate_limit now ?q) = ?q"
      using attempts_fresh_within_limit rej by (rule rejected_unchanged)
    with rej False show ?thesis
      by (simp add: Let_def prod_eq_iff)
  qed
qed

theorem rate_limit_prune_accept_or_keep_witness:
  "check_rate_limit 30 (attempts [10, 20] None) = (True, Some [10, 20, 30]) \<and>
   attempts [10, 20] None = Some [10, 20]"
  using rate_limit_prune_accept_or_keep [of 30 "[10, 20]"]
  by (simp add: check_rate_limit_def hour_def)





lemma attempts_append: "attempts (ts @ us) q = attempts us (attempts ts q)"
  by (induction ts arbitrary: q) simp_all

lemma check_rate_limit_set:
  "snd (check_rate_limit t q) = Some qs \<Longrightarrow> set qs \<subseteq> insert t (case q of None \<Rightarrow> {} | Some ps \<Rightarrow> set ps)"
  by (auto simp: check_rate_limit_def Let_def split: if_splits option.splits)

lemma attempts_set:
  "attempts ts q = Some qs \<Longrightarrow> set qs \<subseteq> set ts \<union> (case q of None \<Rightarrow> {} | Some ps \<Rightarrow> set ps)"
proof (induction ts arbitrary: q qs)
  case Nil
  then show ?case by simp
next
  case (Cons t ts)
  obtain ps where ps: "snd (check_rate_limit t q) = Some ps"
    using check_rate_limit_Some by blast
  from Cons.prems ps have "attempts ts (Some ps) = Some qs" by simp
  from Cons.IH[OF this] have "set qs \<subseteq> set ts \<union> set ps" by simp
  moreover from check_rate_limit_set[OF ps]
  have "set ps \<subseteq> insert t (case q of None \<Rightarrow> {} | Some ps \<Rightarrow> set ps)" .
  ultimately show ?case by auto
qed

lemma check_rate_limit_window:
  "snd (check_rate_limit now q) = Some qs \<Longrightarrow> \<forall>t\<in>set qs. now - t < hour"
  by (auto simp: check_rate_limit_def Let_def hour_def split: if_splits)

text \<open>
  Claim C9. After every call of \<open>check_rate_limit\<close> in a session, accepted or rejected,
  the timestamp list exists, every timestamp in it is less than one hour before the clock
  reading of the call, and the list has at most 20 entries. When the clock readings of the
  session never decrease, no timestamp lies after the reading either.
\<close>

theorem rate_window_invariant:
  "\<exists>qs. snd (check_rate_limit now (attempts ts None)) = Some qs \<and>
        (\<forall>t\<in>set qs. now - t < hour) \<and> length qs \<le> 20 \<and>
        (sorted (ts @ [now]) \<longrightarrow> (\<forall>t\<in>set qs. t \<le> now))"
proof -
  obtain qs where qs: "snd (check_rate_limit now (attempts ts None)) = Some qs"
    using check_rate_limit_Some by blast
  have w: "\<forall>t\<in>set qs. now - t < hour"
    using qs by (rule check_rate_limit_window)
  have "within_limit (snd (check_rate_limit now (attempts ts None)))"
    using attempts_fresh_within_limit by (rule check_rate_limit_within_limit)
  with qs have l: "length qs \<le> 20" by (simp add: within_limit_def)
  have s: "sorted (ts @ [now]) \<longrightarrow> (\<forall>t\<in>set qs. t \<le> now)"
  proof (intro impI ballI)
    fix t assume srt: "sorted (ts @ [now])" and t: "t \<in> set qs"
    from qs have "attempts (ts @ [now]) None = Some qs" by (simp add: attempts_append)
    from attempts_set[OF this] t have "t \<in> set (ts @ [now])" by auto
    with srt show "t \<le> now" by (auto simp: sorted_append)
  qed
  from qs w l s show ?thesis by blast
qed

theorem rate_window_invariant_witness:
  "snd (check_rate_limit 30 (attempts [10, 20] None)) = Some [10, 20, 30] \<and>
   30 - 10 < hour \<and> 30 - 20 < hour \<and> 30 - 30 < hour \<and>
   length [10, 20, 30 :: int] \<le> 20 \<and> sorted ([10, 20] @ [30 :: int])"
  using rate_window_invariant [of 30 "[10, 20]"]
  by (simp add: check_rate_limit_def hour_def)

section \<open>Sanitizer: properties\<close>

text \<open>
  Claim C8. For every input, string or not, the output of \<open>sanitize_input\<close> has at most
  500 characters, and an input that is not a string or is the empty string gives the
  empty string.
\<close>

theorem sanitize_input_length_cap:
  "length (sanitize_input user_input) \<le> 500 \<and>
   (\<not> isinstance_str user_input \<or> user_input = PyStr [] \<longrightarrow> sanitize_input user_input = [])"
  by (cases user_input) (simp_all add: sanitize_input_def)

theorem sanitize_input_length_cap_witness:
  "\<not> isinstance_str (PyInt 7) \<and> sanitize_input (PyInt 7) = [] \<and>
   sanitize_input (PyStr []) = [] \<and>
   length (sanitize_input (PyStr ''Who works at ICF?'')) \<le> 500"
  using sanitize_input_length_cap [of "PyInt 7"] sanitize_input_length_cap [of "PyStr []"]
    sanitize_input_length_cap [of "PyStr ''Who works at ICF?''"]
  by simp

lemma sanitize_input_empty: "sanitize_input (PyStr []) = []"
  by (simp add: sanitize_input_def)

text \<open>
  Claim C1. The sanitizer does not remove a denylisted substring written in mixed case:
  \<open>replace\<close> is called with the pattern as listed, in lower case and in upper case only.
  The input \<open><Script>\<close> is a casing of the denylisted \<open><script>\<close> and comes back
  unchanged, so the output still contains it.
\<close>

theorem sanitize_input_keeps_mixed_case:
  "lower ''<Script>'' \<in> set dangerous_patterns \<and>
   contains ''<Script>'' ''<Script>'' \<and>
   sanitize_input (PyStr ''<Script>'') = ''<Script>'' \<and>
   contains (sanitize_input (PyStr ''<Script>'')) ''<Script>''"
  by code_simp

theorem sanitize_input_keeps_mixed_case_witness:
  "sanitize_input (PyStr ''<Script>'') = ''<Script>''"
  using sanitize_input_keeps_mixed_case by blast

section \<open>Dispatcher: the fallback\<close>

lemma get_claude_client_missing:
  "environ ''ANTHROPIC_API_KEY'' = None \<or> environ ''ANTHROPIC_API_KEY'' = Some [] \<Longrightarrow>
   get_claude_client environ anthropic_init =
     (Inl StopException, [St_error Api_key_not_configured, Logging_error_api_key_missing])"
  by (auto simp: get_claude_client_def)

lemma get_claude_client_configured:
  "environ ''ANTHROPIC_API_KEY'' = Some k \<Longrightarrow> k \<noteq> [] \<Longrightarrow>
   get_claude_client environ anthropic_init =
     (case anthropic_init k of Some e \<Rightarrow> (Inl e, []) | None \<Rightarrow> (Inr (Anthropic k), []))"
  by (simp add: get_claude_client_def split: option.splits)

lemma query_claude_missing:
  "environ ''ANTHROPIC_API_KEY'' = None \<or> environ ''ANTHROPIC_API_KEY'' = Some [] \<Longrightarrow>
   query_claude environ anthropic_init mc jd es q d =
     (Inl StopException, [St_error Api_key_not_configured, Logging_error_api_key_missing])"
  by (simp add: query_claude_def get_claude_client_missing)

lemma upstream_calls_simps [simp]:
  "upstream_calls [] = []"
  "upstream_calls (Messages_create c r # evs) = Messages_create c r # upstream_calls evs"
  "upstream_calls (St_error m # evs) = upstream_calls evs"
  "upstream_calls (St_warning m # evs) = upstream_calls evs"
  "upstream_calls (Logging_error_api_key_missing # evs) = upstream_calls evs"
  "upstream_calls (Logging_error_api_error s # evs) = upstream_calls evs"
  "upstream_calls (Logging_warning_invalid_input n # evs) = upstream_calls evs"
  "upstream_calls (Logging_warning_rate_limit # evs) = upstream_calls evs"
  "upstream_calls (Logging_info_query s a b # evs) = upstream_calls evs"
  by (simp_all add: upstream_calls_def)

text \<open>What \<open>query_claude\<close> does once the \<open>try\<close> is reached.\<close>

lemma query_claude_reached:
  assumes "environ ''ANTHROPIC_API_KEY'' = Some k" and "k \<noteq> []"
    and "anthropic_init k = None" and "jd d = Inr context"
  shows "query_claude environ anthropic_init mc jd es q d =
     (let request = messages_create_args (user_prompt_of context q);
          call = [Messages_create (Anthropic k) request]
      in case mc (Anthropic k) request of
           Raises e \<Rightarrow>
             if isinstance_Exception e
             then (case es e of
                     Inl e2 \<Rightarrow> (Inl e2, call)
                   | Inr message \<Rightarrow>
                       (Inr fallback_message,
                        call @ [Logging_error_api_error message, Logging_info_query ''FAILED'' (length q) 0]))
             else (Inl e, call)
         | Returns [] \<Rightarrow>
             (Inr fallback_message,
              call @ [Logging_error_api_error ''list index out of range'',
                      Logging_info_query ''FAILED'' (length q) 0])
         | Returns (OtherBlock message # rest) \<Rightarrow>
             (Inr fallback_message,
              call @ [Logging_error_api_error message, Logging_info_query ''FAILED'' (length q) 0])
         | Returns (TextBlock response # rest) \<Rightarrow>
             (Inr response, call @ [Logging_info_query ''SUCCESS'' (length q) (length response)]))"
  using assms
  by (simp add: query_claude_def get_claude_client_configured Let_def
        api_error_branch_def log_query_def
      split: api_result.splits list.splits content_block.splits sum.splits)

text \<open>The exceptions raised before the \<open>try\<close>, and by \<open>str(e)\<close> in the handler, leave.\<close>

lemma query_claude_constructor_raises:
  assumes "environ ''ANTHROPIC_API_KEY'' = Some k" and "k \<noteq> []" and "anthropic_init k = Some e"
  shows "query_claude environ anthropic_init mc jd es q d = (Inl e, [])"
  using assms by (simp add: query_claude_def get_claude_client_configured)

lemma query_claude_serialization_raises:
  assumes "environ ''ANTHROPIC_API_KEY'' = Some k" and "k \<noteq> []"
    and "anthropic_init k = None" and "jd d = Inl e"
  shows "query_claude environ anthropic_init mc jd es q d = (Inl e, [])"
  using assms by (simp add: query_claude_def get_claude_client_configured)

lemma query_claude_str_raises:
  assumes "environ ''ANTHROPIC_API_KEY'' = Some k" and "k \<noteq> []"
    and "anthropic_init k = None" and "jd d = Inr context"
    and "mc (Anthropic k) (messages_create_args (user_prompt_of context q)) = Raises e"
    and "isinstance_Exception e" and "es e = Inl e2"
  shows "fst (query_claude environ anthropic_init mc jd es q d) = Inl e2"
  using assms by (simp add: query_claude_reached Let_def)

lemma query_claude_one_call:
  assumes "environ ''ANTHROPIC_API_KEY'' = Some k" and "k \<noteq> []"
    and "anthropic_init k = None" and "jd d = Inr context"
  shows "upstream_calls (snd (query_claude environ anthropic_init mc jd es q d)) =
           [Messages_create (Anthropic k) (messages_create_args (user_prompt_of context q))]"
  using assms
  by (simp add: query_claude_reached Let_def
      split: api_result.splits list.splits content_block.splits sum.splits)

lemma contains_middle: "contains (a @ b @ c) b"
  by (simp add: contains_def)

lemma user_prompt_contains:
  "contains (user_prompt_of context user_question) context \<and>
   contains (user_prompt_of context user_question) user_question"
proof
  show "contains (user_prompt_of context user_question) context"
    unfolding user_prompt_of_def by (rule contains_middle)
  have "contains ((''Here's our current MSBA student database:\<newline>\<newline>'' @ context @
     ''\<newline>\<newline>User question: '') @ user_question @
     ''\<newline>\<newline>Please search through the students and provide helpful recommendations for who they should connect with based on their question.'') user_question"
    by (rule contains_middle)
  then show "contains (user_prompt_of context user_question) user_question"
    by (simp add: user_prompt_of_def)
qed

text \<open>
  Claim C2, as stated, fails when the credential is missing: the stop raised in
  \<open>get_claude_client\<close>, before the \<open>try\<close>, leaves \<open>query_claude\<close> as an exception
  and no fallback string is returned.
\<close>

theorem query_claude_stop_propagates:
  "query_claude environ_without_key client_constructed (upstream_returning ''Ann'') icf_dumps
       str_of_name ''Who works at ICF?'' icf_records
     = (Inl StopException, [St_error Api_key_not_configured, Logging_error_api_key_missing]) \<and>
   fst (query_claude environ_without_key client_constructed (upstream_returning ''Ann'') icf_dumps
          str_of_name ''Who works at ICF?'' icf_records)
     \<noteq> Inr fallback_message"
  by code_simp

text \<open>
  Claim C2, amended. When the credential is missing, the stop of \<open>get_claude_client\<close>
  leaves \<open>query_claude\<close>. When the upstream call is reached (the credential is
  configured, the client is constructed and the table is serialized): if the call raises
  an instance of \<open>Exception\<close> whose \<open>str\<close> returns, or its result has no first text
  block, \<open>query_claude\<close> returns the fixed fallback string; if it raises an exception
  that is not an instance of \<open>Exception\<close>, that exception leaves \<open>query_claude\<close>; if it
  succeeds, \<open>query_claude\<close> returns the text of the first block. Nothing is stated for
  the runs in which the constructor, the serialization or \<open>str(e)\<close> raises.
\<close>

theorem query_claude_fallback_on_exception:
  assumes "query_claude environ anthropic_init messages_create json_dumps_records exn_str
             user_question student_data = (result, evs)"
  shows "(environ ''ANTHROPIC_API_KEY'' = None \<or> environ ''ANTHROPIC_API_KEY'' = Some []
            \<longrightarrow> result = Inl StopException) \<and>
         (\<forall>k context reply.
            environ ''ANTHROPIC_API_KEY'' = Some k \<and> k \<noteq> [] \<and> anthropic_init k = None \<and>
            json_dumps_records student_data = Inr context \<and>
            reply = messages_create (Anthropic k)
                      (messages_create_args (user_prompt_of context user_question)) \<longrightarrow>
            (\<forall>e message. reply = Raises e \<and> isinstance_Exception e \<and> exn_str e = Inr message
                \<longrightarrow> result = Inr fallback_message) \<and>
            (\<forall>e. reply = Raises e \<and> \<not> isinstance_Exception e \<longrightarrow> result = Inl e) \<and>
            (reply = Returns [] \<longrightarrow> result = Inr fallback_message) \<and>
            (\<forall>message rest. reply = Returns (OtherBlock message # rest)
                \<longrightarrow> result = Inr fallback_message) \<and>
            (\<forall>response rest. reply = Returns (TextBlock response # rest)
                \<longrightarrow> result = Inr response))"
proof (intro conjI allI impI)
  assume "environ ''ANTHROPIC_API_KEY'' = None \<or> environ ''ANTHROPIC_API_KEY'' = Some []"
  then have "query_claude environ anthropic_init messages_create json_dumps_records exn_str
               user_question student_data
             = (Inl StopException, [St_error Api_key_not_configured, Logging_error_api_key_missing])"
    by (rule query_claude_missing)
  with assms show "result = Inl StopException" by simp
next
  fix k serialized reply
  assume h: "environ ''ANTHROPIC_API_KEY'' = Some k \<and> k \<noteq> [] \<and> anthropic_init k = None \<and>
            json_dumps_records student_data = Inr serialized \<and>
            reply = messages_create (Anthropic k)
                      (messages_create_args (user_prompt_of serialized user_question))"
  then have k: "environ ''ANTHROPIC_API_KEY'' = Some k" "k \<noteq> []" "anthropic_init k = None"
      "json_dumps_records student_data = Inr serialized"
    and r: "messages_create (Anthropic k)
              (messages_create_args (user_prompt_of serialized user_question)) = reply"
    by simp_all
  have "query_claude environ anthropic_init messages_create json_dumps_records exn_str
          user_question student_data =
     (let request = messages_create_args (user_prompt_of serialized user_question);
          call = [Messages_create (Anthropic k) request]
      in case messages_create (Anthropic k) request of
           Raises e \<Rightarrow>
             if isinstance_Exception e
             then (case exn_str e of
                     Inl e2 \<Rightarrow> (Inl e2, call)
                   | Inr message \<Rightarrow>
                       (Inr fallback_message,
                        call @ [Logging_error_api_error message,
                                Logging_info_query ''FAILED'' (length user_question) 0]))
             else (Inl e, call)
         | Returns [] \<Rightarrow>
             (Inr fallback_message,
              call @ [Logging_error_api_error ''list index out of range'',
                      Logging_info_query ''FAILED'' (length user_question) 0])
         | Returns (OtherBlock message # rest) \<Rightarrow>
             (Inr fallback_message,
              call @ [Logging_error_api_error message,
                      Logging_info_query ''FAILED'' (length user_question) 0])
         | Returns (TextBlock response # rest) \<Rightarrow>
             (Inr response,
              call @ [Logging_info_query ''SUCCESS'' (length user_question) (length response)]))"
    using k by (rule query_claude_reached)
  with assms r have qc: "(result, evs) =
     (let call = [Messages_create (Anthropic k)
                    (messages_create_args (user_prompt_of serialized user_question))]
      in case reply of
           Raises e \<Rightarrow>
             if isinstance_Exception e
             then (case exn_str e of
                     Inl e2 \<Rightarrow> (Inl e2, call)
                   | Inr message \<Rightarrow>
                       (Inr fallback_message,
                        call @ [Logging_error_api_error message,
                                Logging_info_query ''FAILED'' (length user_question) 0]))
             else (Inl e, call)
         | Returns [] \<Rightarrow>
             (Inr fallback_message,
              call @ [Logging_error_api_error ''list index out of range'',
                      Logging_info_query ''FAILED'' (length user_question) 0])
         | Returns (OtherBlock message # rest) \<Rightarrow>
             (Inr fallback_message,
              call @ [Logging_error_api_error message,
                      Logging_info_query ''FAILED'' (length user_question) 0])
         | Returns (TextBlock response # rest) \<Rightarrow>
             (Inr response,
              call @ [Logging_info_query ''SUCCESS'' (length user_question) (length response)]))"
    by (simp add: Let_def)
  {
    fix e message
    assume "reply = Raises e \<and> isinstance_Exception e \<and> exn_str e = Inr message"
    with qc show "result = Inr fallback_message" by (simp add: Let_def)
  }
  {
    fix e
    assume "reply = Raises e \<and> \<not> isinstance_Exception e"
    with qc show "result = Inl e" by (simp add: Let_def)
  }
  {
    assume "reply = Returns []"
    with qc show "result = Inr fallback_message" by (simp add: Let_def)
  }
  {
    fix message rest
    assume "reply = Returns (OtherBlock message # rest)"
    with qc show "result = Inr fallback_message" by (simp add: Let_def)
  }
  {
    fix response rest
    assume "reply = Returns (TextBlock response # rest)"
    with qc show "result = Inr response" by (simp add: Let_def)
  }
qed

theorem query_claude_fallback_on_exception_witness:
  "environ_with_key ''ANTHROPIC_API_KEY'' = Some ''sk-test'' \<and>
   client_constructed ''sk-test'' = None \<and>
   icf_dumps icf_records = Inr icf_json \<and>
   isinstance_Exception (PyException ''APIConnectionError'') \<and>
   str_of_name (PyException ''APIConnectionError'') = Inr ''APIConnectionError'' \<and>
   upstream_raising (PyException ''APIConnectionError'') (Anthropic ''sk-test'')
       (messages_create_args (user_prompt_of icf_json ''Who works at ICF?''))
     = Raises (PyException ''APIConnectionError'') \<and>
   query_claude environ_with_key client_constructed
       (upstream_raising (PyException ''APIConnectionError'')) icf_dumps str_of_name
       ''Who works at ICF?'' icf_records
     = (Inr fallback_message,
        [Messages_create (Anthropic ''sk-test'')
           (messages_create_args (user_prompt_of icf_json ''Who works at ICF?'')),
         Logging_error_api_error ''APIConnectionError'',
         Logging_info_query ''FAILED'' 17 0])"
proof -
  let ?e = "PyException ''APIConnectionError''"
  let ?reply = "upstream_raising ?e (Anthropic ''sk-test'')
       (messages_create_args (user_prompt_of icf_json ''Who works at ICF?''))"
  have a: "environ_with_key ''ANTHROPIC_API_KEY'' = Some ''sk-test''" by code_simp
  have b: "''sk-test'' \<noteq> []" by simp
  have c: "client_constructed ''sk-test'' = None" by (simp add: client_constructed_def)
  have d: "icf_dumps icf_records = Inr icf_json" by (simp add: icf_dumps_def)
  have e: "?reply = Raises ?e" by (simp add: upstream_raising_def)
  have f: "isinstance_Exception ?e" by simp
  have g: "str_of_name ?e = Inr ''APIConnectionError''" by (simp add: str_of_name_def)
  have q: "query_claude environ_with_key client_constructed (upstream_raising ?e) icf_dumps
       str_of_name ''Who works at ICF?'' icf_records
     = (Inr fallback_message,
        [Messages_create (Anthropic ''sk-test'')
           (messages_create_args (user_prompt_of icf_json ''Who works at ICF?'')),
         Logging_error_api_error ''APIConnectionError'',
         Logging_info_query ''FAILED'' 17 0])"
    by code_simp
  from query_claude_fallback_on_exception [OF q] a c d e f g q
  show ?thesis by simp
qed

section \<open>Handler: properties\<close>

lemma handle_rejects_short:
  assumes "raw \<noteq> []" and "length (sanitize_input (PyStr raw)) < 3"
  shows "handle_user_input environ ai mc jd es d now (Some raw) st =
           (Stopped, st, [St_error Invalid_input, Logging_warning_invalid_input (length raw)])"
  using assms by (simp add: handle_user_input_def Let_def)

lemma handle_no_input:
  "user_input = None \<or> user_input = Some [] \<Longrightarrow>
   handle_user_input environ ai mc jd es d now user_input st = (Continued, st, [])"
  by (auto simp: handle_user_input_def)

lemma handle_accepted:
  assumes "3 \<le> length (sanitize_input (PyStr raw))"
    and "check_rate_limit now (query_times st) = (True, qt)"
  shows "handle_user_input environ ai mc jd es d now (Some raw) st =
     (let q = sanitize_input (PyStr raw);
          st2 = st\<lparr>query_times := qt, shown_welcome := True,
                   messages := messages st @ [\<lparr>role = ''user'', content = q\<rparr>]\<rparr>
      in case query_claude environ ai mc jd es q d of
           (Inl e, evs) \<Rightarrow> ((if e = StopException then Stopped else Uncaught e), st2, evs)
         | (Inr response, evs) \<Rightarrow>
             (Rerun, st2\<lparr>messages := messages st2 @ [\<lparr>role = ''assistant'', content = response\<rparr>]\<rparr>, evs))"
proof -
  from assms(1) have "raw \<noteq> []" by (auto simp: sanitize_input_def)
  moreover from assms(1) have "sanitize_input (PyStr raw) \<noteq> []" by auto
  moreover from assms(1) have "\<not> length (sanitize_input (PyStr raw)) < 3" by simp
  ultimately show ?thesis
    using assms(2)
    by (simp add: handle_user_input_def Let_def split: prod.splits sum.splits)
qed

lemma handle_rate_limited:
  assumes "3 \<le> length (sanitize_input (PyStr raw))"
    and "check_rate_limit now (query_times st) = (False, qt)"
  shows "handle_user_input environ ai mc jd es d now (Some raw) st =
     (Stopped, st\<lparr>query_times := qt\<rparr>, [St_warning Rate_limit_reached, Logging_warning_rate_limit])"
proof -
  from assms(1) have "raw \<noteq> []" by (auto simp: sanitize_input_def)
  moreover from assms(1) have "sanitize_input (PyStr raw) \<noteq> []" by auto
  moreover from assms(1) have "\<not> length (sanitize_input (PyStr raw)) < 3" by simp
  ultimately show ?thesis
    using assms(2) by (simp add: handle_user_input_def Let_def)
qed

lemma handle_user_entry_is_sanitized:
  assumes "handle_user_input environ ai mc jd es d now user_input st = (out, st', evs)"
  shows "messages st' = messages st \<or>
         (\<exists>raw. user_input = Some raw \<and>
            (messages st' = messages st @ [\<lparr>role = ''user'', content = sanitize_input (PyStr raw)\<rparr>] \<or>
             (\<exists>response. messages st' = messages st @
                [\<lparr>role = ''user'', content = sanitize_input (PyStr raw)\<rparr>,
                 \<lparr>role = ''assistant'', content = response\<rparr>])))"
  using assms
  by (auto simp: handle_user_input_def Let_def
      split: option.splits if_splits prod.splits sum.splits bool.splits)

text \<open>
  Claim C7. When the sanitized form of the input has fewer than 3 characters (the empty
  string included), the run leaves the session state as it was (transcript and
  \<open>query_times\<close> both, so no timestamp is recorded), makes no upstream call and does not
  reach the rerun; when something was submitted it stops with the invalid-input error as
  its only message.
\<close>

theorem short_input_rejected_before_dispatch:
  assumes "length (sanitize_input (chat_input_value user_input)) < 3"
    and "handle_user_input environ anthropic_init messages_create json_dumps_records exn_str
           student_data now user_input st
           = (out, st', evs)"
  shows "st' = st \<and> upstream_calls evs = [] \<and> out \<noteq> Rerun \<and>
         (user_input \<noteq> None \<and> user_input \<noteq> Some [] \<longrightarrow>
            out = Stopped \<and> evs = [St_error Invalid_input,
                                    Logging_warning_invalid_input (length (the user_input))])"
proof (cases "user_input = None \<or> user_input = Some []")
  case True
  have "handle_user_input environ anthropic_init messages_create json_dumps_records exn_str
          student_data now user_input st
          = (Continued, st, [])"
    using True by (rule handle_no_input)
  with assms(2) True show ?thesis by auto
next
  case False
  then obtain raw where raw: "user_input = Some raw" "raw \<noteq> []" by (cases user_input) auto
  with assms(1) have "length (sanitize_input (PyStr raw)) < 3"
    by (simp add: chat_input_value_def)
  with raw(2)
  have "handle_user_input environ anthropic_init messages_create json_dumps_records exn_str
          student_data now (Some raw) st
          = (Stopped, st, [St_error Invalid_input, Logging_warning_invalid_input (length raw)])"
    by (rule handle_rejects_short)
  with assms(2) raw show ?thesis by auto
qed

theorem short_input_rejected_before_dispatch_witness:
  "length (sanitize_input (chat_input_value (Some ''hi''))) < 3 \<and>
   handle_user_input environ_with_key client_constructed (upstream_returning ''Ann'') icf_dumps
       str_of_name icf_records 7 (Some ''hi'') fresh_session
     = (Stopped, fresh_session, [St_error Invalid_input, Logging_warning_invalid_input 2]) \<and>
   upstream_calls [St_error Invalid_input, Logging_warning_invalid_input 2] = []"
proof -
  have a: "length (sanitize_input (chat_input_value (Some ''hi''))) < 3"
    by code_simp
  have b: "handle_user_input environ_with_key client_constructed (upstream_returning ''Ann'')
       icf_dumps str_of_name icf_records 7 (Some ''hi'') fresh_session
     = (Stopped, fresh_session, [St_error Invalid_input, Logging_warning_invalid_input 2])"
    by code_simp
  from short_input_rejected_before_dispatch [OF a b]
  have "upstream_calls [St_error Invalid_input, Logging_warning_invalid_input 2] = []"
    by simp
  with a b show ?thesis by simp
qed

text \<open>
  Claim C6, as stated, fails when the credential is missing: the question below is
  accepted (sanitized, 3 characters or more, within the rate limit) and no upstream call
  is dispatched.
\<close>

theorem accepted_question_without_key_no_call:
  "3 \<le> length (sanitize_input (PyStr ''Who works at ICF?'')) \<and>
   fst (check_rate_limit 7 (query_times fresh_session)) \<and>
   upstream_calls (snd (snd (handle_user_input environ_without_key client_constructed
       (upstream_returning ''Ann'') icf_dumps str_of_name icf_records 7
       (Some ''Who works at ICF?'') fresh_session))) = []"
  by code_simp

text \<open>
  Claim C6, amended. When the credential is configured, the client is constructed and
  the table is serialized, for every accepted question (sanitized, 3 characters or more,
  within the rate limit) exactly one upstream call is dispatched; its request carries the
  system prompt and a single user message whose content contains the serialized table
  and the question; and when the call succeeds the transcript grows by exactly two
  entries, the user entry followed by the assistant entry.
\<close>

theorem accepted_question_one_call_two_entries:
  assumes "environ ''ANTHROPIC_API_KEY'' = Some k" and "k \<noteq> []"
    and "anthropic_init k = None"
    and "json_dumps_records student_data = Inr serialized"
    and "q = sanitize_input (PyStr raw)" and "3 \<le> length q"
    and "fst (check_rate_limit now (query_times st))"
    and "handle_user_input environ anthropic_init messages_create json_dumps_records exn_str
           student_data now (Some raw) st
           = (out, st', evs)"
  shows "\<exists>request payload.
           upstream_calls evs = [Messages_create (Anthropic k) request] \<and>
           request_messages request = [\<lparr>role = ''user'', content = payload\<rparr>] \<and>
           system request = SYSTEM_PROMPT \<and>
           contains payload serialized \<and> contains payload q \<and>
           (\<forall>response rest.
              messages_create (Anthropic k) request = Returns (TextBlock response # rest) \<longrightarrow>
              out = Rerun \<and>
              messages st' = messages st @ [\<lparr>role = ''user'', content = q\<rparr>,
                                            \<lparr>role = ''assistant'', content = response\<rparr>])"
proof -
  let ?payload = "user_prompt_of serialized q"
  let ?request = "messages_create_args ?payload"
  let ?qc = "query_claude environ anthropic_init messages_create json_dumps_records exn_str
               q student_data"
  obtain qt where qt: "check_rate_limit now (query_times st) = (True, qt)"
    using assms(7) by (cases "check_rate_limit now (query_times st)") auto
  from assms(5,6) have len: "3 \<le> length (sanitize_input (PyStr raw))" by simp
  note h = handle_accepted [OF len qt, of environ anthropic_init messages_create
              json_dumps_records exn_str student_data]
  have calls: "upstream_calls (snd ?qc) = [Messages_create (Anthropic k) ?request]"
    using assms(1-4) by (rule query_claude_one_call)
  have evs: "evs = snd ?qc"
    using h assms(8) assms(5) by (auto simp: Let_def split: prod.splits sum.splits)
  have req: "request_messages ?request = [\<lparr>role = ''user'', content = ?payload\<rparr>] \<and>
             system ?request = SYSTEM_PROMPT"
    by (simp add: messages_create_args_def)
  have succ: "out = Rerun \<and>
              messages st' = messages st @ [\<lparr>role = ''user'', content = q\<rparr>,
                                            \<lparr>role = ''assistant'', content = response\<rparr>]"
    if "messages_create (Anthropic k) ?request = Returns (TextBlock response # rest)"
    for response rest
  proof -
    from that have "fst ?qc = Inr response"
      using assms(1-4) by (simp add: query_claude_reached Let_def)
    then obtain es where "?qc = (Inr response, es)" by (cases ?qc) auto
    with h assms(8) assms(5) show ?thesis by (auto simp: Let_def)
  qed
  from calls evs req succ user_prompt_contains [of serialized q]
  show ?thesis by blast
qed

theorem accepted_question_one_call_two_entries_witness:
  "environ_with_key ''ANTHROPIC_API_KEY'' = Some ''sk-test'' \<and>
   client_constructed ''sk-test'' = None \<and>
   icf_dumps icf_records = Inr icf_json \<and>
   ''Who works at ICF?'' = sanitize_input (PyStr ''Who works at ICF?'') \<and>
   3 \<le> length ''Who works at ICF?'' \<and>
   fst (check_rate_limit 7 (query_times fresh_session)) \<and>
   handle_user_input environ_with_key client_constructed (upstream_returning ''Ann'') icf_dumps
       str_of_name icf_records 7 (Some ''Who works at ICF?'') fresh_session
     = (Rerun,
        \<lparr>messages = [\<lparr>role = ''user'', content = ''Who works at ICF?''\<rparr>,
                     \<lparr>role = ''assistant'', content = ''Ann''\<rparr>],
         query_times = Some [7], shown_welcome = True\<rparr>,
        [Messages_create (Anthropic ''sk-test'')
           (messages_create_args (user_prompt_of icf_json ''Who works at ICF?'')),
         Logging_info_query ''SUCCESS'' 17 3]) \<and>
   (\<exists>request payload.
      upstream_calls
        [Messages_create (Anthropic ''sk-test'')
           (messages_create_args (user_prompt_of icf_json ''Who works at ICF?'')),
         Logging_info_query ''SUCCESS'' 17 3]
        = [Messages_create (Anthropic ''sk-test'') request] \<and>
      request_messages request = [\<lparr>role = ''user'', content = payload\<rparr>] \<and>
      contains payload icf_json \<and> contains payload ''Who works at ICF?'')"
proof -
  have a: "environ_with_key ''ANTHROPIC_API_KEY'' = Some ''sk-test''" by code_simp
  have b: "''sk-test'' \<noteq> []" by simp
  have b1: "client_constructed ''sk-test'' = None" by (simp add: client_constructed_def)
  have b2: "icf_dumps icf_records = Inr icf_json" by (simp add: icf_dumps_def)
  have c: "''Who works at ICF?'' = sanitize_input (PyStr ''Who works at ICF?'')" by code_simp
  have d: "3 \<le> length ''Who works at ICF?''" by simp
  have e: "fst (check_rate_limit 7 (query_times fresh_session))" by code_simp
  have f: "handle_user_input environ_with_key client_constructed (upstream_returning ''Ann'')
       icf_dumps str_of_name icf_records 7 (Some ''Who works at ICF?'') fresh_session
     = (Rerun,
        \<lparr>messages = [\<lparr>role = ''user'', content = ''Who works at ICF?''\<rparr>,
                     \<lparr>role = ''assistant'', content = ''Ann''\<rparr>],
         query_times = Some [7], shown_welcome = True\<rparr>,
        [Messages_create (Anthropic ''sk-test'')
           (messages_create_args (user_prompt_of icf_json ''Who works at ICF?'')),
         Logging_info_query ''SUCCESS'' 17 3])"
    by code_simp
  have "\<exists>request payload.
      upstream_calls
        [Messages_create (Anthropic ''sk-test'')
           (messages_create_args (user_prompt_of icf_json ''Who works at ICF?'')),
         Logging_info_query ''SUCCESS'' 17 3]
        = [Messages_create (Anthropic ''sk-test'') request] \<and>
      request_messages request = [\<lparr>role = ''user'', content = payload\<rparr>] \<and>
      contains payload icf_json \<and> contains payload ''Who works at ICF?''"
    using accepted_question_one_call_two_entries
      [where environ = environ_with_key and k = "''sk-test''" and q = "''Who works at ICF?''"
         and raw = "''Who works at ICF?''" and now = 7 and st = fresh_session
         and anthropic_init = client_constructed and exn_str = str_of_name
         and messages_create = "upstream_returning ''Ann''" and json_dumps_records = icf_dumps
         and student_data = icf_records and serialized = icf_json, OF a b b1 b2 c d e f]
    by blast
  with a b1 b2 c d e f show ?thesis by blast
qed

text \<open>
  Claim C3, as stated, fails: the credential is not checked when the script starts. A
  run without input ends with no error shown, and a question typed into the chat is
  sanitized, counted by the rate limiter and appended to the transcript before
  \<open>get_claude_client\<close> stops the run.
\<close>

theorem missing_credential_query_stops:
  "handle_user_input environ_without_key client_constructed (upstream_returning ''Ann'') icf_dumps
       str_of_name icf_records 7 None fresh_session
     = (Continued, fresh_session, []) \<and>
   handle_user_input environ_without_key client_constructed (upstream_returning ''Ann'') icf_dumps
       str_of_name icf_records 7 (Some ''Who works at ICF?'') fresh_session
     = (Stopped,
        \<lparr>messages = [\<lparr>role = ''user'', content = ''Who works at ICF?''\<rparr>],
         query_times = Some [7], shown_welcome = True\<rparr>,
        [St_error Api_key_not_configured, Logging_error_api_key_missing])"
  by code_simp

text \<open>
  Claim C3, amended. When the credential is absent (unset or empty), it is checked only
  when an accepted question reaches the dispatcher. A run without input continues with
  the session unchanged and no event; a too short input and a rate-limited input stop
  with their own message only, as they do with the credential set. An accepted question
  is first counted by the rate limiter and appended to the transcript as the user entry,
  and then the run stops with the operator-facing error and its log line as the only
  events. In no run is an upstream call dispatched, the rerun reached or an assistant
  entry added to the transcript.
\<close>

theorem missing_credential_stops_at_dispatch:
  assumes "environ ''ANTHROPIC_API_KEY'' = None \<or> environ ''ANTHROPIC_API_KEY'' = Some []"
    and "handle_user_input environ anthropic_init messages_create json_dumps_records exn_str
           student_data now user_input st
           = (out, st', evs)"
  shows "upstream_calls evs = [] \<and> out \<noteq> Rerun \<and>
         (messages st' = messages st \<or>
          (\<exists>text. messages st' = messages st @ [\<lparr>role = ''user'', content = text\<rparr>])) \<and>
         (user_input = None \<or> user_input = Some [] \<longrightarrow>
            out = Continued \<and> st' = st \<and> evs = []) \<and>
         (\<forall>raw. user_input = Some raw \<and> raw \<noteq> [] \<and> length (sanitize_input (PyStr raw)) < 3 \<longrightarrow>
            out = Stopped \<and> st' = st \<and>
            evs = [St_error Invalid_input, Logging_warning_invalid_input (length raw)]) \<and>
         (\<forall>raw. user_input = Some raw \<and> 3 \<le> length (sanitize_input (PyStr raw)) \<and>
                \<not> fst (check_rate_limit now (query_times st)) \<longrightarrow>
            out = Stopped \<and>
            st' = st\<lparr>query_times := snd (check_rate_limit now (query_times st))\<rparr> \<and>
            evs = [St_warning Rate_limit_reached, Logging_warning_rate_limit]) \<and>
         (\<forall>raw. user_input = Some raw \<and> 3 \<le> length (sanitize_input (PyStr raw)) \<and>
                fst (check_rate_limit now (query_times st)) \<longrightarrow>
            out = Stopped \<and>
            st' = st\<lparr>query_times := snd (check_rate_limit now (query_times st)),
                      shown_welcome := True,
                      messages := messages st @
                        [\<lparr>role = ''user'', content = sanitize_input (PyStr raw)\<rparr>]\<rparr> \<and>
            evs = [St_error Api_key_not_configured, Logging_error_api_key_missing])"
proof -
  have qc: "query_claude environ anthropic_init messages_create json_dumps_records exn_str q
              student_data =
     (Inl StopException, [St_error Api_key_not_configured, Logging_error_api_key_missing])" for q
    using assms(1) by (rule query_claude_missing)
  from assms(2) show ?thesis
    by (auto simp: handle_user_input_def Let_def qc sanitize_input_empty
        split: option.splits if_splits prod.splits bool.splits)
qed

theorem missing_credential_stops_at_dispatch_witness:
  "environ_without_key ''ANTHROPIC_API_KEY'' = None \<and>
   3 \<le> length (sanitize_input (PyStr ''Who works at ICF?'')) \<and>
   fst (check_rate_limit 7 (query_times fresh_session)) \<and>
   handle_user_input environ_without_key client_constructed (upstream_returning ''Ann'') icf_dumps
       str_of_name icf_records 7 (Some ''Who works at ICF?'') fresh_session
     = (Stopped,
        \<lparr>messages = [\<lparr>role = ''user'', content = ''Who works at ICF?''\<rparr>],
         query_times = Some [7], shown_welcome = True\<rparr>,
        [St_error Api_key_not_configured, Logging_error_api_key_missing]) \<and>
   upstream_calls [St_error Api_key_not_configured, Logging_error_api_key_missing] = []"
proof -
  have a: "environ_without_key ''ANTHROPIC_API_KEY'' = None" by code_simp
  then have a': "environ_without_key ''ANTHROPIC_API_KEY'' = None \<or>
                 environ_without_key ''ANTHROPIC_API_KEY'' = Some []" by (rule disjI1)
  have b: "handle_user_input environ_without_key client_constructed (upstream_returning ''Ann'')
       icf_dumps str_of_name icf_records 7 (Some ''Who works at ICF?'') fresh_session
     = (Stopped,
        \<lparr>messages = [\<lparr>role = ''user'', content = ''Who works at ICF?''\<rparr>],
         query_times = Some [7], shown_welcome = True\<rparr>,
        [St_error Api_key_not_configured, Logging_error_api_key_missing])"
    by code_simp
  have c: "3 \<le> length (sanitize_input (PyStr ''Who works at ICF?''))" by code_simp
  have d: "fst (check_rate_limit 7 (query_times fresh_session))" by code_simp
  have "upstream_calls [St_error Api_key_not_configured, Logging_error_api_key_missing] = []"
    using missing_credential_stops_at_dispatch
      [where environ = environ_without_key and messages_create = "upstream_returning ''Ann''"
         and anthropic_init = client_constructed and exn_str = str_of_name
         and json_dumps_records = icf_dumps and student_data = icf_records and now = 7
         and user_input = "Some ''Who works at ICF?''" and st = fresh_session, OF a' b]
    by (rule conjunct1)
  with a b c d show ?thesis by simp
qed

text \<open>
  Claim C10. The user entry of the transcript is the output of the sanitizer, and that
  output can contain a denylisted substring: removing the inner occurrences of
  \<open>DROP TABLE\<close> from the input below joins the characters around them into a new one,
  which is stored in the transcript.
\<close>

theorem transcript_keeps_reassembled_pattern:
  "''DROP TABLE'' \<in> set dangerous_patterns \<and>
   contains ''DROP DROP DROP TABLETABLETABLE'' ''DROP TABLE'' \<and>
   messages (fst (snd (handle_user_input environ_with_key client_constructed
       (upstream_returning ''Ann'') icf_dumps str_of_name
       icf_records 7 (Some ''DROP DROP DROP TABLETABLETABLE'') fresh_session)))
     = [\<lparr>role = ''user'', content = ''DROP TABLE''\<rparr>,
        \<lparr>role = ''assistant'', content = ''Ann''\<rparr>]"
  by code_simp

theorem transcript_keeps_reassembled_pattern_witness:
  "''DROP TABLE'' \<in> set dangerous_patterns"
  using transcript_keeps_reassembled_pattern by (rule conjunct1)

end
